theory Spec2Isabelle
  imports Main "HOL-Library.Multiset" "HOL-Library.Char_ord" "HOL-Library.List_Lexorder"
    "HOL-Library.Option_ord"
begin

section \<open>Documents and the store\<close>

text \<open>
  The messaging subsystem of the directory server: the routes of
  \<^verbatim>\<open>server/routes/message.ts\<close>, the guard \<^verbatim>\<open>server/middleware/messageAuth.ts\<close> and the
  socket gateway of the server entry file. Documents are records, collections are lists in
  natural (insertion) order, every handler takes the store and returns the response, the
  new store and the socket events it emitted. The failures the handlers answer with 500
  are modelled where the request itself causes them (an id that cannot be cast, a method
  called on \<^verbatim>\<open>undefined\<close>); an operation of the store that is given well-formed arguments
  succeeds.

  An ObjectId is a natural number. A parameter of a route's path is a text, of which the
  model keeps what mongoose's cast to ObjectId makes of it, a \<open>raw_id\<close>: \<open>None\<close> when the
  cast fails, \<open>Some i\<close> for the ObjectId it denotes. A JavaScript string is the list of its
  UTF-16 code units.
\<close>

type_synonym oid = nat
type_synonym raw_id = "oid option"
type_synonym js_string = "nat list"

text \<open>
  A value of a JSON body or of a socket event where the code expects an id, which it tests
  with \<^verbatim>\<open>mongoose.Types.ObjectId.isValid\<close> before use: one that \<^verbatim>\<open>isValid\<close> rejects; one that
  \<^verbatim>\<open>isValid\<close> accepts although mongoose cannot cast it to an ObjectId (a JSON number:
  \<^verbatim>\<open>isValid\<close> accepts every number, the cast reads its decimal text and throws); or the text
  of an ObjectId.
\<close>

datatype json_id = Invalid | Uncastable | ObjectIdText oid

text \<open>
  A value inside an aggregation pipeline, which mongoose hands to the store uncast: an
  ObjectId, or the string that is the text of one. The store never takes values of the
  two types for equal.
\<close>

datatype bson = ObjectId oid | Text oid

text \<open>The role enum of the User schema: \<^verbatim>\<open>enum: ['user', 'business', 'admin']\<close>.\<close>

datatype role = RoleUser | RoleBusiness | RoleAdmin

fun role_name :: "role \<Rightarrow> string" where
  "role_name RoleUser = ''user''"
| "role_name RoleBusiness = ''business''"
| "role_name RoleAdmin = ''admin''"

text \<open>
  A user document, cut down to the fields the messaging code reads; \<^verbatim>\<open>req.user\<close>, which the
  \<^verbatim>\<open>auth\<close> middleware builds from such a document, has the same three fields.
\<close>

record user_doc =
  u_id :: oid
  u_email :: string
  u_role :: role

text \<open>
  Modelled from the spec: the schemas \<^verbatim>\<open>models/Conversation.ts\<close> and \<^verbatim>\<open>models/Message.ts\<close>
  are imported by the routes but are not among the sources. The fields are the ones the
  routes read and write, as section 3 of the specification lists them: a conversation has
  its participants and the time of its last activity (unset until the first save), a
  message has its conversation, sender, receiver, content, the \<open>read\<close> flag (false when
  created) and the creation time. The ids in them are ObjectIds, as the routes declare
  (\<^verbatim>\<open>participants: mongoose.Types.ObjectId[]\<close>) and use them (\<^verbatim>\<open>p.equals(...)\<close>).
\<close>

record conversation_doc =
  c_id :: oid
  c_participants :: "oid list"
  c_lastActive :: "nat option"

record message_doc =
  m_id :: oid
  m_conversation :: oid
  m_sender :: oid
  m_receiver :: oid
  m_content :: js_string
  m_read :: bool
  m_createdAt :: nat

text \<open>
  The store: the three collections and the ObjectId generator. \<^verbatim>\<open>new ObjectId()\<close> never
  returns the same value twice; the generator is a counter.
\<close>

record store =
  users :: "user_doc list"
  conversations :: "conversation_doc list"
  messages :: "message_doc list"
  next_oid :: oid

definition new_ObjectId :: "store \<Rightarrow> oid \<times> store" where
  "new_ObjectId st = (next_oid st, st\<lparr>next_oid := Suc (next_oid st)\<rparr>)"

section \<open>Requests, responses, events\<close>

text \<open>
  A value of the JSON body read as \<^verbatim>\<open>content\<close>: missing or null, a string, or anything else
  (a number, a boolean, an object), on which \<^verbatim>\<open>.trim\<close> is not a function.
\<close>

datatype json_value = JUndefined | JText js_string | JOther

datatype js_error = TypeError | CastError

text \<open>
  One element of the answer of \<^verbatim>\<open>GET /\<close>: the conversation with its participants populated,
  the \<^verbatim>\<open>unread\<close> array of the \<^verbatim>\<open>$lookup\<close> stage and the \<^verbatim>\<open>unreadCount\<close> field.
\<close>

record conversation_summary =
  s_id :: oid
  s_participants :: "user_doc list"
  s_lastActive :: "nat option"
  s_unread :: "nat list"
  s_unreadCount :: nat

datatype body =
    ErrorBody string
  | MessageBody message_doc "user_doc option"
  | MessagesBody "(message_doc \<times> user_doc option) list"
  | ConversationsBody "conversation_summary list"
  | ReadBody bool nat

datatype response = Response (status: nat) (body: body)

text \<open>
  A socket event, with the room it is sent to: \<^verbatim>\<open>io.to(room).emit(name, payload)\<close>.
\<close>

datatype event =
    NewMessage (room: oid) oid message_doc "user_doc option"
  | MessagesRead (room: oid) oid oid

section \<open>Strings\<close>

text \<open>
  \<^verbatim>\<open>String.prototype.trim\<close> removes white space and line terminators from both ends: the
  code units of ECMAScript's WhiteSpace and LineTerminator productions.
\<close>

definition js_whitespace :: "nat \<Rightarrow> bool" where
  "js_whitespace c =
     (c \<in> set [9, 10, 11, 12, 13, 32, 160, 5760, 8232, 8233, 8239, 8287, 12288, 65279]
      \<or> (8192 \<le> c \<and> c \<le> 8202))"

definition js_trim :: "js_string \<Rightarrow> js_string" where
  "js_trim s = rev (dropWhile js_whitespace (rev (dropWhile js_whitespace s)))"

text \<open>
  \<^verbatim>\<open>content?.trim()\<close>: undefined for a missing content, the trimmed text for a string, a
  TypeError for any other value.
\<close>

fun content_trim :: "json_value \<Rightarrow> js_error + js_string option" where
  "content_trim JUndefined = Inr None"
| "content_trim (JText s) = Inr (Some (js_trim s))"
| "content_trim JOther = Inl TypeError"

section \<open>Queries of the send route\<close>

definition User_findById :: "store \<Rightarrow> oid \<Rightarrow> user_doc option" where
  "User_findById st i = find (\<lambda>u. u_id u = i) (users st)"

text \<open>
  The cast of a value to an ObjectId, which mongoose applies to the ids in the queries of a
  model (\<^verbatim>\<open>findById\<close>, \<^verbatim>\<open>findOneAndUpdate\<close>, \<^verbatim>\<open>updateMany\<close>) and in a new document: it throws
  on a value that is not the text of an ObjectId.
\<close>

fun cast_ObjectId :: "json_id \<Rightarrow> js_error + oid" where
  "cast_ObjectId (ObjectIdText i) = Inr i"
| "cast_ObjectId Uncastable = Inl CastError"
| "cast_ObjectId Invalid = Inl CastError"

text \<open>
  The filter \<^verbatim>\<open>{ participants: { $all: [senderId, receiverId], $size: 2 } }\<close>: both ids occur
  in the array and the array has two elements.
\<close>

definition all_size2 :: "oid \<Rightarrow> oid \<Rightarrow> conversation_doc \<Rightarrow> bool" where
  "all_size2 s r c =
     (s \<in> set (c_participants c) \<and> r \<in> set (c_participants c) \<and> length (c_participants c) = 2)"

text \<open>
  \<^verbatim>\<open>Conversation.findOneAndUpdate(filter, { $setOnInsert: ... }, { new: true, upsert: true })\<close>:
  the first document that matches, unchanged; when none matches, a new document with the
  participants \<open>[senderId, receiverId]\<close> is inserted and returned. One call is one atomic
  step of the store.
\<close>

definition Conversation_findOneAndUpdate ::
    "store \<Rightarrow> oid \<Rightarrow> oid \<Rightarrow> conversation_doc \<times> store" where
  "Conversation_findOneAndUpdate st s r =
     (case find (all_size2 s r) (conversations st) of
        Some c \<Rightarrow> (c, st)
      | None \<Rightarrow>
          (let (i, st1) = new_ObjectId st;
               c = \<lparr>c_id = i, c_participants = [s, r], c_lastActive = None\<rparr>
           in (c, st1\<lparr>conversations := conversations st1 @ [c]\<rparr>)))"

text \<open>\<^verbatim>\<open>message.save()\<close> of a new document appends it to the collection.\<close>

definition Message_save :: "store \<Rightarrow> message_doc \<Rightarrow> store" where
  "Message_save st m = st\<lparr>messages := messages st @ [m]\<rparr>"

text \<open>
  \<^verbatim>\<open>conversation.lastActive = new Date(); conversation.save()\<close>: the modified path is written
  to the document with that id.
\<close>

definition Conversation_save_lastActive :: "store \<Rightarrow> oid \<Rightarrow> nat \<Rightarrow> store" where
  "Conversation_save_lastActive st i now =
     st\<lparr>conversations :=
          map (\<lambda>c. if c_id c = i then c\<lparr>c_lastActive := Some now\<rparr> else c) (conversations st)\<rparr>"

section \<open>POST /send\<close>

text \<open>
  The handler of \<^verbatim>\<open>router.post('/send', auth, ...)\<close>, after \<^verbatim>\<open>auth\<close> has set \<^verbatim>\<open>req.user\<close>.
  \<open>now\<close> is the clock read by \<^verbatim>\<open>new Date()\<close> and by the timestamps of the new message.
  The checks run in the order of the source: \<^verbatim>\<open>isValid\<close> on the receiver id, the content,
  then \<^verbatim>\<open>User.findById\<close>, which throws on an id it cannot cast (answered 500 by the
  \<^verbatim>\<open>catch\<close>), then the recipient and the roles.
\<close>

definition send_handler ::
    "nat \<Rightarrow> user_doc \<Rightarrow> json_id \<Rightarrow> json_value \<Rightarrow> store \<Rightarrow> response \<times> store \<times> event list" where
  "send_handler now user receiverId content st =
     (if receiverId = Invalid
      then (Response 400 (ErrorBody ''Invalid receiver ID''), st, [])
      else
     (case content_trim content of
        Inl e \<Rightarrow> (Response 500 (ErrorBody ''Failed to send message''), st, [])
      | Inr None \<Rightarrow> (Response 400 (ErrorBody ''Message content is required''), st, [])
      | Inr (Some text) \<Rightarrow>
          if text = [] then (Response 400 (ErrorBody ''Message content is required''), st, [])
          else
     (case cast_ObjectId receiverId of
        Inl e \<Rightarrow> (Response 500 (ErrorBody ''Failed to send message''), st, [])
      | Inr rid \<Rightarrow>
     (case User_findById st rid of
        None \<Rightarrow> (Response 404 (ErrorBody ''Invalid recipient''), st, [])
      | Some receiver \<Rightarrow>
          if u_id receiver = u_id user
          then (Response 404 (ErrorBody ''Invalid recipient''), st, [])
          else if u_role user = RoleBusiness \<and> u_role receiver \<noteq> RoleUser
          then (Response 403 (ErrorBody ''Businesses can only message individual users''), st, [])
          else
            (let (conv, st1) = Conversation_findOneAndUpdate st (u_id user) rid;
                 (i, st2) = new_ObjectId st1;
                 message = \<lparr>m_id = i, m_conversation = c_id conv, m_sender = u_id user,
                            m_receiver = rid, m_content = text, m_read = False,
                            m_createdAt = now\<rparr>;
                 st3 = Message_save st2 message;
                 st4 = Conversation_save_lastActive st3 (c_id conv) now;
                 populated = User_findById st4 (u_id user)
             in (Response 201 (MessageBody message populated), st4,
                 [NewMessage rid (c_id conv) message populated]))))))"

section \<open>GET /: the conversations of the caller\<close>

text \<open>
  A query that sorts gets the documents of the collection from the storage engine in some
  order and sorts them by the key; documents with equal keys stay in the order in which
  they arrived. MongoDB does not fix that order for a sorted query (``documents containing
  those values may be returned in any order''), so it is an argument \<open>order\<close> of the
  handlers below: a permutation of the collection.
\<close>

definition sort_desc :: "('a \<Rightarrow> 'k::linorder) \<Rightarrow> 'a list \<Rightarrow> 'a list" where
  "sort_desc f xs = rev (sort_key f (rev xs))"

text \<open>A message of the conversation \<open>cid\<close>, addressed to \<open>uid\<close> and unread.\<close>

definition is_unread :: "oid \<Rightarrow> oid \<Rightarrow> message_doc \<Rightarrow> bool" where
  "is_unread cid uid m = (m_conversation m = cid \<and> m_receiver m = uid \<and> m_read m = False)"

text \<open>
  The pipeline of \<^verbatim>\<open>Conversation.aggregate\<close>, for the value \<open>v\<close> it is given in the place of
  \<^verbatim>\<open>req.user._id\<close>. \<^verbatim>\<open>$match: { participants: v }\<close> keeps the conversations with a participant
  equal to \<open>v\<close>. The \<^verbatim>\<open>$lookup\<close> stage takes the messages of the conversation whose receiver
  equals \<open>v\<close> and whose \<open>read\<close> is false, and \<^verbatim>\<open>$count\<close> yields one document with their
  number, and no document when nothing matched. The participants and the receiver in the
  store are ObjectIds.
\<close>

definition lookup_match :: "oid \<Rightarrow> bson \<Rightarrow> message_doc \<Rightarrow> bool" where
  "lookup_match cid v m =
     (m_conversation m = cid \<and> ObjectId (m_receiver m) = v \<and> m_read m = False)"

definition unread_lookup :: "store \<Rightarrow> bson \<Rightarrow> oid \<Rightarrow> nat list" where
  "unread_lookup st v cid =
     (let n = length (filter (lookup_match cid v) (messages st)) in if n = 0 then [] else [n])"

text \<open>\<^verbatim>\<open>{ $ifNull: [{ $arrayElemAt: ['$unread.unreadCount', 0] }, 0] }\<close>\<close>

fun unreadCount_field :: "nat list \<Rightarrow> nat" where
  "unreadCount_field [] = 0"
| "unreadCount_field (n # ns) = n"

text \<open>
  \<^verbatim>\<open>Conversation.populate(conversations, { path: 'participants', ... })\<close>: each id is replaced
  by its user document; an id without a document is dropped.
\<close>

definition populate_participants :: "store \<Rightarrow> oid list \<Rightarrow> user_doc list" where
  "populate_participants st ps = List.map_filter (User_findById st) ps"

definition summary :: "store \<Rightarrow> bson \<Rightarrow> conversation_doc \<Rightarrow> conversation_summary" where
  "summary st v c =
     (let unread = unread_lookup st v (c_id c)
      in \<lparr>s_id = c_id c, s_participants = populate_participants st (c_participants c),
          s_lastActive = c_lastActive c, s_unread = unread,
          s_unreadCount = unreadCount_field unread\<rparr>)"

definition aggregate_conversations ::
    "conversation_doc list \<Rightarrow> bson \<Rightarrow> store \<Rightarrow> conversation_summary list" where
  "aggregate_conversations order v st =
     (let matched = filter (\<lambda>c. v \<in> set (map ObjectId (c_participants c))) order;
          sorted = sort_desc c_lastActive matched
      in map (summary st v) sorted)"

text \<open>
  The handler passes \<^verbatim>\<open>req.user._id\<close>, which the \<^verbatim>\<open>auth\<close> middleware has set to the string
  \<^verbatim>\<open>user._id.toString()\<close>. The queries of a model cast such a string to an ObjectId;
  \<^verbatim>\<open>aggregate\<close> does not cast the values of its pipeline.
\<close>

definition listConversations_handler ::
    "conversation_doc list \<Rightarrow> user_doc \<Rightarrow> store \<Rightarrow> response" where
  "listConversations_handler order user st =
     Response 200 (ConversationsBody (aggregate_conversations order (Text (u_id user)) st))"

section \<open>GET /:conversationId/messages and PATCH /:conversationId/read: the handlers\<close>

text \<open>
  \<^verbatim>\<open>Message.find({ conversation: id }).sort({ createdAt: 1 }).populate('sender', ...)\<close>. An id
  that cannot be cast to an ObjectId makes the query throw, which the handler answers
  with 500.
\<close>

definition listMessages_handler :: "message_doc list \<Rightarrow> raw_id \<Rightarrow> store \<Rightarrow> response" where
  "listMessages_handler order conversationId st =
     (case conversationId of
        None \<Rightarrow> Response 500 (ErrorBody ''Failed to fetch messages'')
      | Some cid \<Rightarrow>
          Response 200 (MessagesBody
            (map (\<lambda>m. (m, User_findById st (m_sender m)))
               (sort_key m_createdAt (filter (\<lambda>m. m_conversation m = cid) order)))))"

text \<open>
  \<^verbatim>\<open>Message.updateMany({ conversation, receiver: req.user._id, read: false }, { $set: { read:
  true } })\<close>, then the notification, which the handler sends only when \<^verbatim>\<open>req.conversation\<close>
  is set: to the first participant that is not the caller.
\<close>

definition Message_updateMany_read :: "store \<Rightarrow> oid \<Rightarrow> oid \<Rightarrow> nat \<times> store" where
  "Message_updateMany_read st cid uid =
     (length (filter (is_unread cid uid) (messages st)),
      st\<lparr>messages :=
           map (\<lambda>m. if is_unread cid uid m then m\<lparr>m_read := True\<rparr> else m) (messages st)\<rparr>)"

definition markRead_handler ::
    "raw_id \<Rightarrow> user_doc \<Rightarrow> conversation_doc option \<Rightarrow> store \<Rightarrow> response \<times> store \<times> event list" where
  "markRead_handler conversationId user req_conversation st =
     (case conversationId of
        None \<Rightarrow> (Response 500 (ErrorBody ''Failed to mark messages as read''), st, [])
      | Some cid \<Rightarrow>
          (let (modifiedCount, st1) = Message_updateMany_read st cid (u_id user);
               events =
                 (case req_conversation of
                    None \<Rightarrow> []
                  | Some c \<Rightarrow>
                      (case find (\<lambda>p. p \<noteq> u_id user) (c_participants c) of
                         None \<Rightarrow> []
                       | Some otherParticipant \<Rightarrow>
                           [MessagesRead otherParticipant cid (u_id user)]))
           in (Response 200 (ReadBody True modifiedCount), st1, events)))"

section \<open>The guard of the two conversation routes\<close>

text \<open>
  \<^verbatim>\<open>req.params\<close> holds the parameters of the route's path, by name. Reading a name the path
  does not bind gives \<^verbatim>\<open>undefined\<close>, here \<open>None\<close>.
\<close>

type_synonym params = "(string \<times> raw_id) list"

text \<open>
  \<^verbatim>\<open>Message.findById(id)\<close>: mongoose turns \<^verbatim>\<open>findById(undefined)\<close> into
  \<^verbatim>\<open>findOne({ _id: null })\<close>, which finds nothing; an id that cannot be cast throws.
\<close>

definition Message_findById :: "store \<Rightarrow> raw_id option \<Rightarrow> js_error + message_doc option" where
  "Message_findById st i =
     (case i of
        None \<Rightarrow> Inr None
      | Some None \<Rightarrow> Inl CastError
      | Some (Some j) \<Rightarrow> Inr (find (\<lambda>m. m_id m = j) (messages st)))"

text \<open>
  The guard reads \<^verbatim>\<open>participants\<close> of the document the query returned. That document is a
  message (the populated conversation is its field \<^verbatim>\<open>conversation\<close>), and a message has no
  path \<^verbatim>\<open>participants\<close>: the property is \<^verbatim>\<open>undefined\<close>.
\<close>

definition message_participants :: "message_doc \<Rightarrow> user_doc list option" where
  "message_participants m = None"

datatype outcome = Next | Reply response

text \<open>\<^verbatim>\<open>array.toString()\<close> of an array of strings: the elements joined by commas.\<close>

fun js_toString :: "string list \<Rightarrow> string" where
  "js_toString [] = []"
| "js_toString [x] = x"
| "js_toString (x # y # ys) = x @ '','' @ js_toString (y # ys)"

definition validInteractionTypes :: "string list list" where
  "validInteractionTypes =
     [[''user'', ''user''], [''user'', ''business''], [''business'', ''business'']]"

text \<open>
  Lines 29 to 55 of the guard, on the participants (each with its id and role): the caller
  must be one of them, and the sorted roles, joined, must equal the sorted, joined roles of
  one of the valid interaction types. \<^verbatim>\<open>Array.prototype.sort\<close> without a comparison function
  orders strings by their code units.
\<close>

definition participants_check :: "user_doc \<Rightarrow> user_doc list \<Rightarrow> outcome" where
  "participants_check user ps =
     (let isParticipant = list_ex (\<lambda>p. u_id p = u_id user) ps
      in if \<not> isParticipant
         then Reply (Response 403 (ErrorBody ''Not authorized to access this conversation''))
         else
           (let roles = map (\<lambda>p. role_name (u_role p)) ps;
                normalizedRoles = js_toString (sort roles);
                isValid = list_ex (\<lambda>types. js_toString (sort types) = normalizedRoles)
                            validInteractionTypes
            in if \<not> isValid
               then Reply (Response 403
                      (ErrorBody ''Unauthorized conversation type between these roles''))
               else Next))"

text \<open>
  \<^verbatim>\<open>messageAuthorization\<close>: the lookup by \<^verbatim>\<open>req.params.id\<close>, 404 when nothing is found, 500
  when anything throws (the cast of the id, or \<^verbatim>\<open>.some\<close> of an undefined \<^verbatim>\<open>participants\<close>),
  otherwise the check of the participants.
\<close>

definition messageAuthorization :: "params \<Rightarrow> user_doc \<Rightarrow> store \<Rightarrow> outcome" where
  "messageAuthorization ps user st =
     (case Message_findById st (map_of ps ''id'') of
        Inl e \<Rightarrow> Reply (Response 500 (ErrorBody ''Authorization check failed''))
      | Inr None \<Rightarrow> Reply (Response 404 (ErrorBody ''Conversation not found''))
      | Inr (Some doc) \<Rightarrow>
          (case message_participants doc of
             None \<Rightarrow> Reply (Response 500 (ErrorBody ''Authorization check failed''))
           | Some participants \<Rightarrow> participants_check user participants))"

section \<open>The two conversation routes\<close>

text \<open>
  \<^verbatim>\<open>router.get('/:conversationId/messages', auth, messageAuthorization, handler)\<close> and
  \<^verbatim>\<open>router.patch('/:conversationId/read', auth, messageAuthorization, handler)\<close>: the path
  binds \<^verbatim>\<open>conversationId\<close> and nothing else, the guard runs before the handler, and nothing
  on the way assigns \<^verbatim>\<open>req.conversation\<close>.
\<close>

definition listMessages_route ::
    "message_doc list \<Rightarrow> raw_id \<Rightarrow> user_doc \<Rightarrow> store \<Rightarrow> response \<times> store \<times> event list" where
  "listMessages_route order conversationId user st =
     (case messageAuthorization [(''conversationId'', conversationId)] user st of
        Reply r \<Rightarrow> (r, st, [])
      | Next \<Rightarrow> (listMessages_handler order conversationId st, st, []))"

definition markRead_route ::
    "raw_id \<Rightarrow> user_doc \<Rightarrow> store \<Rightarrow> response \<times> store \<times> event list" where
  "markRead_route conversationId user st =
     (case messageAuthorization [(''conversationId'', conversationId)] user st of
        Reply r \<Rightarrow> (r, st, [])
      | Next \<Rightarrow> markRead_handler conversationId user None st)"

section \<open>The socket gateway\<close>

text \<open>
  The payload of a verified token, cut down to the two fields the code reads: \<^verbatim>\<open>id\<close> (which
  \<^verbatim>\<open>generateAuthToken\<close> signs and the HTTP \<^verbatim>\<open>auth\<close> middleware reads) and \<^verbatim>\<open>_id\<close> (which the
  socket middleware reads). \<^verbatim>\<open>jwt.verify\<close> is the argument \<open>verify\<close>: \<open>None\<close> when it throws.
\<close>

record jwt_payload =
  jwt_id :: "raw_id option"
  jwt__id :: "raw_id option"

type_synonym jwt_verify = "string \<Rightarrow> jwt_payload option"

text \<open>
  \<^verbatim>\<open>User.findById(decoded._id)\<close>, with the same treatment of \<^verbatim>\<open>undefined\<close> and of a failed
  cast as above.
\<close>

definition User_findById_raw :: "store \<Rightarrow> raw_id option \<Rightarrow> js_error + user_doc option" where
  "User_findById_raw st i =
     (case i of
        None \<Rightarrow> Inr None
      | Some None \<Rightarrow> Inl CastError
      | Some (Some j) \<Rightarrow> Inr (User_findById st j))"

text \<open>
  The middleware \<^verbatim>\<open>io.use\<close>: every failure (no token, a token that does not verify, no such
  user) ends in \<^verbatim>\<open>next(new Error('Authentication failed'))\<close>; success sets
  \<^verbatim>\<open>socket.data.user\<close>.
\<close>

definition socket_auth :: "jwt_verify \<Rightarrow> store \<Rightarrow> string option \<Rightarrow> string + user_doc" where
  "socket_auth verify st token =
     (case token of
        None \<Rightarrow> Inl ''Authentication failed''
      | Some t \<Rightarrow>
          if t = [] then Inl ''Authentication failed''
          else
            (case verify t of
               None \<Rightarrow> Inl ''Authentication failed''
             | Some decoded \<Rightarrow>
                 (case User_findById_raw st (jwt__id decoded) of
                    Inl e \<Rightarrow> Inl ''Authentication failed''
                  | Inr None \<Rightarrow> Inl ''Authentication failed''
                  | Inr (Some user) \<Rightarrow> Inr user)))"

text \<open>
  The server is created with \<^verbatim>\<open>connectionStateRecovery: { maxDisconnectionDuration: 2 * 60 *
  1000, skipMiddlewares: true }\<close>. When a connection that was accepted is lost on the
  transport, the adapter keeps its session (\<^verbatim>\<open>socket.data\<close> and its rooms) under the
  private id of the socket. A later handshake that names a session the adapter still
  holds gets the session back, and, with \<^verbatim>\<open>skipMiddlewares\<close>, does not run \<^verbatim>\<open>io.use\<close>: its
  token is not looked at.

  A room is named by a value: the text of an ObjectId, or another value that \<^verbatim>\<open>isValid\<close>
  lets pass. (The room every socket has under its own socket id is left out.)
\<close>

type_synonym pid = nat
type_synonym room = json_id



datatype socket_event =
    Handshake "string option" "pid option"
  | JoinConversation json_id
  | TransportClose
  | Disconnect















text \<open>
  \<^verbatim>\<open>setupWebSocket\<close> of \<^verbatim>\<open>server/websocket.ts\<close> builds a second gateway, which no module of
  the server calls: its connection handler has no middleware in front of it and joins
  whatever room the client names, a well-formed id or not. Its state is the set of rooms
  of the connection.
\<close>

fun setupWebSocket_step :: "room set \<Rightarrow> socket_event \<Rightarrow> room set" where
  "setupWebSocket_step rooms (JoinConversation c) = insert c rooms"
| "setupWebSocket_step rooms ev = rooms"

section \<open>Sequences of requests\<close>

record send_request =
  sr_now :: nat
  sr_user :: user_doc
  sr_receiverId :: json_id
  sr_content :: json_value

definition send_step :: "store \<Rightarrow> send_request \<Rightarrow> store" where
  "send_step st rq =
     fst (snd (send_handler (sr_now rq) (sr_user rq) (sr_receiverId rq) (sr_content rq) st))"

fun run_sends :: "store \<Rightarrow> send_request list \<Rightarrow> store" where
  "run_sends st [] = st"
| "run_sends st (rq # rqs) = run_sends (send_step st rq) rqs"

section \<open>The send route, one store operation at a time\<close>

text \<open>
  The handler of \<^verbatim>\<open>POST /send\<close> gives way to other requests at each \<^verbatim>\<open>await\<close>. A request in
  flight is in one of these phases: received; validated and waiting for the upsert; with
  the conversation and the new message, waiting for \<^verbatim>\<open>message.save()\<close>; waiting for
  \<^verbatim>\<open>conversation.save()\<close>; waiting for \<^verbatim>\<open>Message.populate\<close>; done, with its response and its
  events. \<open>advance\<close> runs one request up to its next \<^verbatim>\<open>await\<close>, that is, through one operation
  of the store.
\<close>

datatype send_phase =
    Received nat user_doc json_id json_value
  | Upserting nat user_doc oid js_string
  | SavingMessage nat conversation_doc message_doc
  | SavingConversation nat conversation_doc message_doc
  | Populating conversation_doc message_doc
  | Done response "event list"

fun advance :: "store \<Rightarrow> send_phase \<Rightarrow> store \<times> send_phase" where
  "advance st (Received now user receiverId content) =
     (st,
      if receiverId = Invalid
      then Done (Response 400 (ErrorBody ''Invalid receiver ID'')) []
      else
     (case content_trim content of
        Inl e \<Rightarrow> Done (Response 500 (ErrorBody ''Failed to send message'')) []
      | Inr None \<Rightarrow> Done (Response 400 (ErrorBody ''Message content is required'')) []
      | Inr (Some text) \<Rightarrow>
          if text = [] then Done (Response 400 (ErrorBody ''Message content is required'')) []
          else
     (case cast_ObjectId receiverId of
        Inl e \<Rightarrow> Done (Response 500 (ErrorBody ''Failed to send message'')) []
      | Inr rid \<Rightarrow>
     (case User_findById st rid of
        None \<Rightarrow> Done (Response 404 (ErrorBody ''Invalid recipient'')) []
      | Some receiver \<Rightarrow>
          if u_id receiver = u_id user
          then Done (Response 404 (ErrorBody ''Invalid recipient'')) []
          else if u_role user = RoleBusiness \<and> u_role receiver \<noteq> RoleUser
          then Done (Response 403 (ErrorBody ''Businesses can only message individual users'')) []
          else Upserting now user rid text))))"
| "advance st (Upserting now user rid text) =
     (let (conv, st1) = Conversation_findOneAndUpdate st (u_id user) rid;
          (i, st2) = new_ObjectId st1;
          message = \<lparr>m_id = i, m_conversation = c_id conv, m_sender = u_id user,
                     m_receiver = rid, m_content = text, m_read = False, m_createdAt = now\<rparr>
      in (st2, SavingMessage now conv message))"
| "advance st (SavingMessage now conv message) =
     (Message_save st message, SavingConversation now conv message)"
| "advance st (SavingConversation now conv message) =
     (Conversation_save_lastActive st (c_id conv) now, Populating conv message)"
| "advance st (Populating conv message) =
     (st, let populated = User_findById st (m_sender message)
          in Done (Response 201 (MessageBody message populated))
               [NewMessage (m_receiver message) (c_id conv) message populated])"
| "advance st (Done r evs) = (st, Done r evs)"

text \<open>
  Several requests in flight: \<open>turns\<close> names, step by step, the request that advances next
  (a turn that names no request passes).
\<close>

fun schedule :: "nat list \<Rightarrow> store \<Rightarrow> send_phase list \<Rightarrow> store \<times> send_phase list" where
  "schedule [] st pool = (st, pool)"
| "schedule (i # turns) st pool =
     (if i < length pool
      then (let (st1, ph) = advance st (pool ! i) in schedule turns st1 (pool[i := ph]))
      else schedule turns st pool)"



section \<open>A directory for the examples\<close>

definition alice :: user_doc where
  "alice = \<lparr>u_id = 1, u_email = ''alice@example.org'', u_role = RoleUser\<rparr>"

definition bob :: user_doc where
  "bob = \<lparr>u_id = 2, u_email = ''bob@example.org'', u_role = RoleUser\<rparr>"

definition acme :: user_doc where
  "acme = \<lparr>u_id = 3, u_email = ''office@acme.example'', u_role = RoleBusiness\<rparr>"

definition bolt :: user_doc where
  "bolt = \<lparr>u_id = 4, u_email = ''office@bolt.example'', u_role = RoleBusiness\<rparr>"

definition root :: user_doc where
  "root = \<lparr>u_id = 5, u_email = ''root@example.org'', u_role = RoleAdmin\<rparr>"

definition directory :: store where
  "directory =
     \<lparr>users = [alice, bob, acme, bolt, root], conversations = [], messages = [], next_oid = 6\<rparr>"

text \<open>The text \<^verbatim>\<open>hi\<close>, and a request that sends it.\<close>

definition hi :: js_string where
  "hi = [104, 105]"

definition says_hi :: "nat \<Rightarrow> user_doc \<Rightarrow> user_doc \<Rightarrow> send_request" where
  "says_hi now from to =
     \<lparr>sr_now = now, sr_user = from, sr_receiverId = ObjectIdText (u_id to),
      sr_content = JText hi\<rparr>"


section \<open>Properties: the send route\<close>

lemmas people = alice_def bob_def acme_def bolt_def root_def

lemma User_findById_id: "User_findById st i = Some u \<Longrightarrow> u_id u = i"
  by (auto simp: User_findById_def find_Some_iff)
















text \<open>A request that runs alone through its five steps does what \<open>send_handler\<close> does.\<close>

lemma schedule_alone:
  "schedule [0, 0, 0, 0, 0] st [Received now user receiverId content] =
     (fst (snd (send_handler now user receiverId content st)),
      [Done (fst (send_handler now user receiverId content st))
            (snd (snd (send_handler now user receiverId content st)))])"
  by (simp add: send_handler_def Let_def case_prod_beta
      Message_save_def Conversation_save_lastActive_def new_ObjectId_def User_findById_def
      split: option.splits sum.splits)




lemma both_directions:
  "conversations (fst (schedule [0, 1, 0, 1, 1, 0, 0, 1, 1, 0] directory
         [Received 10 alice (ObjectIdText (u_id acme)) (JText hi),
          Received 10 acme (ObjectIdText (u_id alice)) (JText hi)]))
     = [\<lparr>c_id = 6, c_participants = [u_id alice, u_id acme], c_lastActive = Some 10\<rparr>]"
  by (simp add: directory_def people User_findById_def js_trim_def js_whitespace_def hi_def
      Conversation_findOneAndUpdate_def new_ObjectId_def Message_save_def
      Conversation_save_lastActive_def Let_def all_size2_def)



text \<open>
  C3. A send from a business to a business. The claim as stated fails where an earlier
  check answers first: blank content is answered 400.
\<close>

theorem business_to_business_blank_counterexample:
  "u_role acme = RoleBusiness \<and> User_findById directory (u_id bolt) = Some bolt \<and>
   u_role bolt = RoleBusiness \<and>
   fst (send_handler 50 acme (ObjectIdText (u_id bolt)) (JText [32, 9]) directory)
     = Response 400 (ErrorBody ''Message content is required'')"
  by (simp add: send_handler_def directory_def people User_findById_def js_trim_def
      js_whitespace_def)

text \<open>
  C3, amended. When the caller is a business and the receiver resolves to a business, the
  send writes nothing and emits nothing, whatever the content; and when the content is a
  text that is not empty after trimming and the receiver is not the caller, the answer is
  403.
\<close>

theorem business_to_business_forbidden:
  assumes "u_role user = RoleBusiness" and "User_findById st rid = Some receiver"
    and "u_role receiver = RoleBusiness"
  shows "snd (send_handler now user (ObjectIdText rid) content st) = (st, []) \<and>
         (\<forall>s. content = JText s \<and> js_trim s \<noteq> [] \<and> rid \<noteq> u_id user \<longrightarrow>
            fst (send_handler now user (ObjectIdText rid) content st)
              = Response 403 (ErrorBody ''Businesses can only message individual users''))"
  using assms User_findById_id[OF assms(2)]
  by (cases content) (auto simp: send_handler_def)

theorem business_to_business_forbidden_witness:
  "snd (send_handler 50 acme (ObjectIdText (u_id bolt)) (JText hi) directory) = (directory, []) \<and>
   fst (send_handler 50 acme (ObjectIdText (u_id bolt)) (JText hi) directory)
     = Response 403 (ErrorBody ''Businesses can only message individual users'')"
proof -
  have h1: "u_role acme = RoleBusiness" by (simp add: people)
  have h2: "User_findById directory (u_id bolt) = Some bolt"
    by (simp add: User_findById_def directory_def people)
  have h3: "u_role bolt = RoleBusiness" by (simp add: people)
  have h4: "js_trim hi \<noteq> []" by (simp add: js_trim_def js_whitespace_def hi_def)
  have h5: "u_id bolt \<noteq> u_id acme" by (simp add: people)
  from business_to_business_forbidden[OF h1 h2 h3, of 50 "JText hi"] h4 h5
  show ?thesis by blast
qed

text \<open>
  C4. Validation of a send. The claim as stated fails for a receiver that is the caller
  (and likewise for a well-formed id of no user): the answer is 404, not 400.
\<close>

theorem send_to_self_counterexample:
  "js_trim hi \<noteq> [] \<and>
   send_handler 50 alice (ObjectIdText (u_id alice)) (JText hi) directory
     = (Response 404 (ErrorBody ''Invalid recipient''), directory, [])"
  by (simp add: send_handler_def directory_def people User_findById_def js_trim_def
      js_whitespace_def hi_def)

text \<open>
  C4, amended. A send whose content is missing or empty after trimming, or whose receiver
  id does not resolve to a user, or is the caller's own, leaves the store unchanged and
  emits no event. Its answer is 400 when \<^verbatim>\<open>isValid\<close> rejects the receiver id; otherwise 400
  when the content is missing or a string that is empty after trimming; otherwise 500 when
  the content is not a string, or when the receiver id, which \<^verbatim>\<open>isValid\<close> has let pass,
  cannot be cast to an ObjectId; otherwise (the receiver id is of no user, or is the
  caller's own) 404.
\<close>

theorem send_invalid_input_rejected:
  assumes "content = JUndefined \<or> (\<exists>s. content = JText s \<and> js_trim s = [])
           \<or> (\<forall>rid. receiverId = ObjectIdText rid \<longrightarrow>
                  User_findById st rid = None \<or> rid = u_id user)"
  shows "snd (send_handler now user receiverId content st) = (st, []) \<and>
         status (fst (send_handler now user receiverId content st)) =
           (if receiverId = Invalid then 400
            else if content = JUndefined \<or> (\<exists>s. content = JText s \<and> js_trim s = []) then 400
            else if content = JOther \<or> receiverId = Uncastable then 500
            else 404)"
proof (cases receiverId)
  case Invalid
  then show ?thesis by (simp add: send_handler_def)
next
  case Uncastable
  then show ?thesis by (cases content) (simp_all add: send_handler_def)
next
  case (ObjectIdText rid)
  show ?thesis
  proof (cases content)
    case JUndefined
    with ObjectIdText show ?thesis by (simp add: send_handler_def)
  next
    case JOther
    with ObjectIdText show ?thesis by (simp add: send_handler_def)
  next
    case (JText s)
    show ?thesis
    proof (cases "js_trim s = []")
      case True
      with JText ObjectIdText show ?thesis by (simp add: send_handler_def)
    next
      case False
      with assms JText ObjectIdText have "User_findById st rid = None \<or> rid = u_id user"
        by simp
      with False JText ObjectIdText show ?thesis
        by (auto simp: send_handler_def dest: User_findById_id split: option.splits)
    qed
  qed
qed

theorem send_invalid_input_rejected_witness:
  "snd (send_handler 50 alice (ObjectIdText 9) (JText hi) directory) = (directory, []) \<and>
   status (fst (send_handler 50 alice (ObjectIdText 9) (JText hi) directory)) = 404 \<and>
   snd (send_handler 50 alice Invalid (JText hi) directory) = (directory, []) \<and>
   status (fst (send_handler 50 alice Invalid (JText hi) directory)) = 400 \<and>
   snd (send_handler 50 alice (ObjectIdText (u_id bob)) (JText [32]) directory) = (directory, []) \<and>
   status (fst (send_handler 50 alice (ObjectIdText (u_id bob)) (JText [32]) directory)) = 400 \<and>
   snd (send_handler 50 alice Uncastable (JText hi) directory) = (directory, []) \<and>
   status (fst (send_handler 50 alice Uncastable (JText hi) directory)) = 500 \<and>
   snd (send_handler 50 alice (ObjectIdText 9) JOther directory) = (directory, []) \<and>
   status (fst (send_handler 50 alice (ObjectIdText 9) JOther directory)) = 500"
proof -
  have t: "js_trim hi \<noteq> []" "js_trim [32] = []"
    by (simp_all add: js_trim_def js_whitespace_def hi_def)
  have a: "JText hi = JUndefined \<or> (\<exists>s. JText hi = JText s \<and> js_trim s = [])
      \<or> (\<forall>rid. ObjectIdText 9 = ObjectIdText rid \<longrightarrow>
             User_findById directory rid = None \<or> rid = u_id alice)"
    by (simp add: User_findById_def directory_def people)
  have b: "JText hi = JUndefined \<or> (\<exists>s. JText hi = JText s \<and> js_trim s = [])
      \<or> (\<forall>rid. Invalid = ObjectIdText rid \<longrightarrow>
             User_findById directory rid = None \<or> rid = u_id alice)"
    by simp
  have c: "JText [32] = JUndefined \<or> (\<exists>s. JText [32] = JText s \<and> js_trim s = [])
      \<or> (\<forall>rid. ObjectIdText (u_id bob) = ObjectIdText rid \<longrightarrow>
             User_findById directory rid = None \<or> rid = u_id alice)"
    by (simp add: t)
  have d: "JText hi = JUndefined \<or> (\<exists>s. JText hi = JText s \<and> js_trim s = [])
      \<or> (\<forall>rid. Uncastable = ObjectIdText rid \<longrightarrow>
             User_findById directory rid = None \<or> rid = u_id alice)"
    by simp
  have e: "JOther = JUndefined \<or> (\<exists>s. JOther = JText s \<and> js_trim s = [])
      \<or> (\<forall>rid. ObjectIdText 9 = ObjectIdText rid \<longrightarrow>
             User_findById directory rid = None \<or> rid = u_id alice)"
    by (simp add: User_findById_def directory_def people)
  from send_invalid_input_rejected[OF a, of 50] send_invalid_input_rejected[OF b, of 50]
    send_invalid_input_rejected[OF c, of 50] send_invalid_input_rejected[OF d, of 50]
    send_invalid_input_rejected[OF e, of 50] t
  show ?thesis by simp
qed

section \<open>Properties: the stores after some sends\<close>

lemma alice_acme: "run_sends directory [says_hi 10 alice acme] =
  directory\<lparr>conversations := [\<lparr>c_id = 6, c_participants = [1, 3], c_lastActive = Some 10\<rparr>],
    messages := [\<lparr>m_id = 7, m_conversation = 6, m_sender = 1, m_receiver = 3,
          m_content = hi, m_read = False, m_createdAt = 10\<rparr>], next_oid := 8\<rparr>"
  by (simp add: send_step_def send_handler_def says_hi_def directory_def people User_findById_def
      js_trim_def js_whitespace_def hi_def Conversation_findOneAndUpdate_def new_ObjectId_def
      Message_save_def Conversation_save_lastActive_def Let_def)

lemma two_hi: "run_sends directory [says_hi 10 alice bob, says_hi 10 bob alice] =
  directory\<lparr>conversations := [\<lparr>c_id = 6, c_participants = [1, 2], c_lastActive = Some 10\<rparr>],
    messages := [\<lparr>m_id = 7, m_conversation = 6, m_sender = 1, m_receiver = 2,
          m_content = hi, m_read = False, m_createdAt = 10\<rparr>,
          \<lparr>m_id = 8, m_conversation = 6, m_sender = 2, m_receiver = 1,
          m_content = hi, m_read = False, m_createdAt = 10\<rparr>], next_oid := 9\<rparr>"
  by (simp add: send_step_def send_handler_def says_hi_def directory_def people User_findById_def
      js_trim_def js_whitespace_def hi_def Conversation_findOneAndUpdate_def new_ObjectId_def
      Message_save_def Conversation_save_lastActive_def Let_def all_size2_def)

lemma root_alice: "run_sends directory [says_hi 10 root alice] =
  directory\<lparr>conversations := [\<lparr>c_id = 6, c_participants = [5, 1], c_lastActive = Some 10\<rparr>],
    messages := [\<lparr>m_id = 7, m_conversation = 6, m_sender = 5, m_receiver = 1,
          m_content = hi, m_read = False, m_createdAt = 10\<rparr>], next_oid := 8\<rparr>"
  by (simp add: send_step_def send_handler_def says_hi_def directory_def people User_findById_def
      js_trim_def js_whitespace_def hi_def Conversation_findOneAndUpdate_def new_ObjectId_def
      Message_save_def Conversation_save_lastActive_def Let_def)


section \<open>Properties: the guard and the two conversation routes\<close>

lemma guard_unbound_id:
  "messageAuthorization [(''conversationId'', c)] user st
     = Reply (Response 404 (ErrorBody ''Conversation not found''))"
  by (simp add: messageAuthorization_def Message_findById_def)

lemma listMessages_route_404:
  "listMessages_route order c user st = (Response 404 (ErrorBody ''Conversation not found''), st, [])"
  by (simp add: listMessages_route_def guard_unbound_id)

lemma markRead_route_404:
  "markRead_route c user st = (Response 404 (ErrorBody ''Conversation not found''), st, [])"
  by (simp add: markRead_route_def guard_unbound_id)

lemma participants_check_outsider:
  "\<not> list_ex (\<lambda>p. u_id p = u_id user) ps \<Longrightarrow>
     participants_check user ps
       = Reply (Response 403 (ErrorBody ''Not authorized to access this conversation''))"
  by (simp add: participants_check_def)

lemma set_js_toString: "x \<in> set xs \<Longrightarrow> set x \<subseteq> set (js_toString xs)"
  by (induction xs rule: js_toString.induct) auto

lemma valid_types_joined:
  "map (\<lambda>types. js_toString (sort types)) validInteractionTypes
     = [''user,user'', ''business,user'', ''business,business'']"
  by (simp add: validInteractionTypes_def)

lemma participants_check_admin:
  assumes "list_ex (\<lambda>p. u_id p = u_id user) ps" and "list_ex (\<lambda>p. u_role p = RoleAdmin) ps"
  shows "participants_check user ps
       = Reply (Response 403 (ErrorBody ''Unauthorized conversation type between these roles''))"
proof -
  let ?roles = "map (\<lambda>p. role_name (u_role p)) ps"
  from assms(2) have "''admin'' \<in> set (sort ?roles)"
    by (force simp: list_ex_iff)
  from set_js_toString[OF this] have d: "CHR ''d'' \<in> set (js_toString (sort ?roles))"
    by auto
  have "\<not> list_ex (\<lambda>types. js_toString (sort types) = js_toString (sort ?roles))
             validInteractionTypes"
  proof
    assume "list_ex (\<lambda>types. js_toString (sort types) = js_toString (sort ?roles))
              validInteractionTypes"
    then obtain types where "types \<in> set validInteractionTypes"
        "js_toString (sort types) = js_toString (sort ?roles)"
      by (auto simp: list_ex_iff)
    then have "js_toString (sort ?roles)
        \<in> set (map (\<lambda>types. js_toString (sort types)) validInteractionTypes)"
      by (metis imageI set_map)
    with d show False unfolding valid_types_joined by auto
  qed
  with assms(1) show ?thesis
    by (simp add: participants_check_def Let_def)
qed

lemma participants_check_pair:
  "participants_check user [p, q] = Next \<longleftrightarrow>
     (u_id p = u_id user \<or> u_id q = u_id user) \<and> u_role p \<noteq> RoleAdmin \<and> u_role q \<noteq> RoleAdmin"
  by (cases "u_role p"; cases "u_role q")
     (auto simp: participants_check_def validInteractionTypes_def)


text \<open>
  C2. The participant check. Bob is no participant of the conversation of alice and acme;
  the claim has both routes answer him 403. The guard looks the document up by
  \<^verbatim>\<open>req.params.id\<close>, which neither route binds, finds nothing and answers 404, for him as
  for everyone (\<open>listMessages_route_404\<close>, \<open>markRead_route_404\<close>); its own check of the
  participants, which would answer 403 (\<open>participants_check_outsider\<close>), is never reached.
  Nothing is returned and nothing is changed.
\<close>

theorem outsider_gets_not_found:
  "map c_participants (conversations (run_sends directory [says_hi 10 alice acme]))
     = [[u_id alice, u_id acme]]
   \<and> map c_id (conversations (run_sends directory [says_hi 10 alice acme])) = [6]
   \<and> listMessages_route (messages (run_sends directory [says_hi 10 alice acme])) (Some 6) bob
        (run_sends directory [says_hi 10 alice acme])
       = (Response 404 (ErrorBody ''Conversation not found''),
          run_sends directory [says_hi 10 alice acme], [])
   \<and> markRead_route (Some 6) bob (run_sends directory [says_hi 10 alice acme])
       = (Response 404 (ErrorBody ''Conversation not found''),
          run_sends directory [says_hi 10 alice acme], [])"
  unfolding alice_acme by (simp add: listMessages_route_404 markRead_route_404 people)

text \<open>
  C10. A conversation with an admin. Root, an admin, has written to alice; the claim has
  the two routes answer 403 for this conversation. They answer 404, by the same lookup;
  the check of the roles, which would answer 403 (\<open>participants_check_admin\<close>), is never
  reached.
\<close>

theorem admin_conversation_gets_not_found:
  "map c_participants (conversations (run_sends directory [says_hi 10 root alice]))
     = [[u_id root, u_id alice]]
   \<and> map c_id (conversations (run_sends directory [says_hi 10 root alice])) = [6]
   \<and> u_role root = RoleAdmin
   \<and> listMessages_route (messages (run_sends directory [says_hi 10 root alice])) (Some 6) alice
        (run_sends directory [says_hi 10 root alice])
       = (Response 404 (ErrorBody ''Conversation not found''),
          run_sends directory [says_hi 10 root alice], [])
   \<and> markRead_route (Some 6) alice (run_sends directory [says_hi 10 root alice])
       = (Response 404 (ErrorBody ''Conversation not found''),
          run_sends directory [says_hi 10 root alice], [])"
  unfolding root_alice by (simp add: listMessages_route_404 markRead_route_404 people)

section \<open>Properties: marking as read\<close>

lemma no_unread_after_mark:
  "filter (is_unread cid uid) (map (\<lambda>m. if is_unread cid uid m then m\<lparr>m_read := True\<rparr> else m) ms) = []"
  by (induction ms) (auto simp: is_unread_def)

lemma mark_again:
  "map (\<lambda>m. if is_unread cid uid m then m\<lparr>m_read := True\<rparr> else m)
     (map (\<lambda>m. if is_unread cid uid m then m\<lparr>m_read := True\<rparr> else m) ms)
   = map (\<lambda>m. if is_unread cid uid m then m\<lparr>m_read := True\<rparr> else m) ms"
  by (induction ms) (auto simp: is_unread_def)

lemma updateMany_again:
  "Message_updateMany_read (snd (Message_updateMany_read st cid uid)) cid uid
     = (0, snd (Message_updateMany_read st cid uid))"
  by (simp add: Message_updateMany_read_def no_unread_after_mark mark_again)

lemma markRead_response:
  "fst (markRead_handler (Some c) u r s)
     = Response 200 (ReadBody True (fst (Message_updateMany_read s c (u_id u))))"
  by (simp add: markRead_handler_def case_prod_beta Let_def)

lemma markRead_store:
  "fst (snd (markRead_handler (Some c) u r s)) = snd (Message_updateMany_read s c (u_id u))"
  by (simp add: markRead_handler_def case_prod_beta Let_def)

text \<open>
  C5. Marking as read is idempotent. The handler of \<^verbatim>\<open>PATCH /:conversationId/read\<close>, for a
  well-formed conversation id: the answer is 200 with the number of messages of that
  conversation addressed to the caller and unread; exactly those messages get \<open>read\<close> set
  and nothing else in the store changes; a second call right after answers 200 with the
  count 0 and leaves the store as the first call left it.
\<close>

theorem markRead_idempotent:
  "fst (markRead_handler (Some cid) user rc st)
     = Response 200 (ReadBody True (length (filter (is_unread cid (u_id user)) (messages st)))) \<and>
   fst (snd (markRead_handler (Some cid) user rc st))
     = st\<lparr>messages := map (\<lambda>m. if is_unread cid (u_id user) m then m\<lparr>m_read := True\<rparr> else m)
                          (messages st)\<rparr> \<and>
   fst (markRead_handler (Some cid) user rc (fst (snd (markRead_handler (Some cid) user rc st))))
     = Response 200 (ReadBody True 0) \<and>
   fst (snd (markRead_handler (Some cid) user rc (fst (snd (markRead_handler (Some cid) user rc st)))))
     = fst (snd (markRead_handler (Some cid) user rc st))"
  by (simp add: markRead_response markRead_store updateMany_again)
     (simp add: Message_updateMany_read_def)

text \<open>
  C6. The read receipt. Acme has one unread message of alice in conversation 6. The
  handler, with \<^verbatim>\<open>req.conversation\<close> unset as the route leaves it, marks one message and
  emits no event, where the claim has it emit \<^verbatim>\<open>messagesRead\<close> to the room of alice; and the
  route as a whole answers 404 before the handler runs.
\<close>

theorem markRead_emits_nothing:
  "fst (markRead_handler (Some 6) acme None (run_sends directory [says_hi 10 alice acme]))
     = Response 200 (ReadBody True 1)
   \<and> snd (snd (markRead_handler (Some 6) acme None (run_sends directory [says_hi 10 alice acme])))
     = []
   \<and> markRead_route (Some 6) acme (run_sends directory [says_hi 10 alice acme])
       = (Response 404 (ErrorBody ''Conversation not found''),
          run_sends directory [says_hi 10 alice acme], [])"
  unfolding alice_acme
  by (simp add: markRead_route_404 markRead_handler_def Message_updateMany_read_def is_unread_def
      people directory_def)

section \<open>Properties: listing the messages\<close>

text \<open>
  C7. The order of the messages. Alice and bob each send one message at the same instant,
  alice first. When the storage engine hands the two documents over in the other order,
  the handler answers with the message of bob first: messages with the same \<open>createdAt\<close> are
  not returned in the order of the sends.
\<close>

theorem listMessages_same_instant_counterexample:
  "mset (rev (messages (run_sends directory [says_hi 10 alice bob, says_hi 10 bob alice])))
     = mset (messages (run_sends directory [says_hi 10 alice bob, says_hi 10 bob alice])) \<and>
   listMessages_handler
      (rev (messages (run_sends directory [says_hi 10 alice bob, says_hi 10 bob alice])))
      (Some 6) (run_sends directory [says_hi 10 alice bob, says_hi 10 bob alice])
     = Response 200 (MessagesBody
         [(\<lparr>m_id = 8, m_conversation = 6, m_sender = u_id bob, m_receiver = u_id alice,
            m_content = hi, m_read = False, m_createdAt = 10\<rparr>, Some bob),
          (\<lparr>m_id = 7, m_conversation = 6, m_sender = u_id alice, m_receiver = u_id bob,
            m_content = hi, m_read = False, m_createdAt = 10\<rparr>, Some alice)])"
  unfolding two_hi
  by (simp add: listMessages_handler_def directory_def people User_findById_def)

text \<open>
  C7, amended. For a well-formed conversation id the handler answers 200 with exactly the
  messages of that conversation, each once and each with its sender populated, in
  ascending order of \<open>createdAt\<close>, in whatever order the storage engine hands the
  collection over.
\<close>

theorem listMessages_sorted_by_createdAt:
  assumes "mset order = mset (messages st)"
  shows "\<exists>out. listMessages_handler order (Some cid) st = Response 200 (MessagesBody out)
           \<and> mset (map fst out) = mset (filter (\<lambda>m. m_conversation m = cid) (messages st))
           \<and> sorted (map (\<lambda>(m, u). m_createdAt m) out)
           \<and> list_all (\<lambda>(m, u). u = User_findById st (m_sender m)) out"
proof -
  let ?ms = "sort_key m_createdAt (filter (\<lambda>m. m_conversation m = cid) order)"
  let ?out = "map (\<lambda>m. (m, User_findById st (m_sender m))) ?ms"
  have 1: "listMessages_handler order (Some cid) st = Response 200 (MessagesBody ?out)"
    by (simp add: listMessages_handler_def)
  have 2: "map fst ?out = ?ms" by (simp add: comp_def)
  have 3: "mset ?ms = mset (filter (\<lambda>m. m_conversation m = cid) (messages st))"
    using assms by simp
  have 4: "map (\<lambda>(m, u). m_createdAt m) ?out = map m_createdAt ?ms" by (simp add: comp_def)
  have 5: "sorted (map m_createdAt ?ms)" by simp
  have 6: "list_all (\<lambda>(m, u). u = User_findById st (m_sender m)) ?out"
    by (simp add: list_all_iff)
  from 1 2 3 4 5 6 show ?thesis by (metis (no_types, lifting))
qed

theorem listMessages_sorted_by_createdAt_witness:
  "\<exists>out. listMessages_handler
            (rev (messages (run_sends directory [says_hi 10 alice bob, says_hi 11 bob alice])))
            (Some 6) (run_sends directory [says_hi 10 alice bob, says_hi 11 bob alice])
          = Response 200 (MessagesBody out)
      \<and> mset (map fst out)
          = mset (filter (\<lambda>m. m_conversation m = 6)
              (messages (run_sends directory [says_hi 10 alice bob, says_hi 11 bob alice])))
      \<and> sorted (map (\<lambda>(m, u). m_createdAt m) out)
      \<and> list_all (\<lambda>(m, u). u = User_findById
              (run_sends directory [says_hi 10 alice bob, says_hi 11 bob alice]) (m_sender m)) out"
proof -
  have h: "mset (rev (messages (run_sends directory [says_hi 10 alice bob, says_hi 11 bob alice])))
      = mset (messages (run_sends directory [says_hi 10 alice bob, says_hi 11 bob alice]))"
    by simp
  from listMessages_sorted_by_createdAt[OF h] show ?thesis .
qed

section \<open>Properties: listing the conversations\<close>

lemma three_hi:
  "run_sends directory [says_hi 10 acme alice, says_hi 11 acme alice, says_hi 12 acme alice] =
  directory\<lparr>conversations := [\<lparr>c_id = 6, c_participants = [3, 1], c_lastActive = Some 12\<rparr>],
    messages := [\<lparr>m_id = 7, m_conversation = 6, m_sender = 3, m_receiver = 1,
          m_content = hi, m_read = False, m_createdAt = 10\<rparr>,
          \<lparr>m_id = 8, m_conversation = 6, m_sender = 3, m_receiver = 1,
          m_content = hi, m_read = False, m_createdAt = 11\<rparr>,
          \<lparr>m_id = 9, m_conversation = 6, m_sender = 3, m_receiver = 1,
          m_content = hi, m_read = False, m_createdAt = 12\<rparr>], next_oid := 10\<rparr>"
  by (simp add: send_step_def send_handler_def says_hi_def directory_def people User_findById_def
      js_trim_def js_whitespace_def hi_def Conversation_findOneAndUpdate_def new_ObjectId_def
      Message_save_def Conversation_save_lastActive_def Let_def all_size2_def)

lemma aggregate_uncast: "aggregate_conversations order (Text i) st = []"
  by (simp add: aggregate_conversations_def sort_desc_def image_iff)

lemma listConversations_always_empty:
  "listConversations_handler order user st = Response 200 (ConversationsBody [])"
  by (simp add: listConversations_handler_def aggregate_uncast)

lemma lookup_match_cast: "lookup_match cid (ObjectId uid) = is_unread cid uid"
  by (simp add: lookup_match_def is_unread_def fun_eq_iff)

lemma summary_unreadCount:
  "s_unreadCount (summary st (ObjectId uid) c)
     = length (filter (is_unread (c_id c) uid) (messages st))"
  by (simp add: summary_def unread_lookup_def Let_def lookup_match_cast)

lemma summary_fields:
  "s_id (summary st v c) = c_id c" "s_lastActive (summary st v c) = c_lastActive c"
  by (simp_all add: summary_def Let_def)

lemma mset_sort_desc: "mset (sort_desc f xs) = mset xs"
  by (simp add: sort_desc_def)

lemma sorted_sort_desc: "sorted_wrt (\<ge>) (map f (sort_desc f xs))"
proof -
  have "map f (rev (sort_key f (rev xs))) = rev (map f (sort_key f (rev xs)))"
    by (simp add: rev_map)
  moreover have "sorted_wrt (\<lambda>x y. x \<le> y) (map f (sort_key f (rev xs)))"
    using sorted_sort_key[of f "rev xs"] by simp
  ultimately show ?thesis
    by (simp add: sort_desc_def sorted_wrt_rev)
qed

lemma aggregate_with_cast_id:
  assumes "mset order = mset (conversations st)"
  shows "mset (aggregate_conversations order (ObjectId uid) st)
           = mset (map (summary st (ObjectId uid))
                    (filter (\<lambda>c. uid \<in> set (c_participants c)) (conversations st)))
      \<and> sorted_wrt (\<ge>) (map s_lastActive (aggregate_conversations order (ObjectId uid) st))
      \<and> list_all (\<lambda>s. s_unreadCount s = length (filter (is_unread (s_id s) uid) (messages st)))
           (aggregate_conversations order (ObjectId uid) st)"
proof -
  let ?P = "\<lambda>c. uid \<in> set (c_participants c)"
  let ?xs = "sort_desc c_lastActive (filter ?P order)"
  have 1: "aggregate_conversations order (ObjectId uid) st = map (summary st (ObjectId uid)) ?xs"
    by (simp add: aggregate_conversations_def Let_def image_iff)
  have "mset ?xs = mset (filter ?P (conversations st))"
    using assms by (simp add: mset_sort_desc)
  then have 2: "mset (map (summary st (ObjectId uid)) ?xs)
      = mset (map (summary st (ObjectId uid)) (filter ?P (conversations st)))"
    by (metis mset_map)
  have "map s_lastActive (map (summary st (ObjectId uid)) ?xs) = map c_lastActive ?xs"
    by (simp add: summary_fields comp_def)
  then have 3: "sorted_wrt (\<ge>) (map s_lastActive (map (summary st (ObjectId uid)) ?xs))"
    by (simp only: sorted_sort_desc)
  have 4: "list_all (\<lambda>s. s_unreadCount s = length (filter (is_unread (s_id s) uid) (messages st)))
      (map (summary st (ObjectId uid)) ?xs)"
    by (simp add: list_all_iff summary_unreadCount summary_fields)
  from 2 3 4 show ?thesis unfolding 1 by blast
qed

text \<open>
  C8. Unread accounting. Acme, a business, has sent alice three messages, none of them
  read: the store holds their conversation and three unread messages addressed to alice.
  The claim has the answer of \<^verbatim>\<open>GET /\<close> to alice list that conversation with the unread
  count 3. The handler answers with the empty list: it gives the pipeline the string
  \<^verbatim>\<open>req.user._id\<close>, which \<^verbatim>\<open>aggregate\<close> does not cast, and no participant and no receiver in
  the store, all ObjectIds, equals a string (\<open>listConversations_always_empty\<close>). Given the
  ObjectId instead, the same pipeline yields what the claim says
  (\<open>aggregate_with_cast_id\<close>).
\<close>

theorem listConversations_reports_nothing:
  "map c_participants (conversations
      (run_sends directory [says_hi 10 acme alice, says_hi 11 acme alice, says_hi 12 acme alice]))
     = [[u_id acme, u_id alice]]
   \<and> length (filter (is_unread 6 (u_id alice)) (messages
      (run_sends directory [says_hi 10 acme alice, says_hi 11 acme alice, says_hi 12 acme alice])))
     = 3
   \<and> listConversations_handler
        (conversations
          (run_sends directory [says_hi 10 acme alice, says_hi 11 acme alice, says_hi 12 acme alice]))
        alice
        (run_sends directory [says_hi 10 acme alice, says_hi 11 acme alice, says_hi 12 acme alice])
     = Response 200 (ConversationsBody [])"
  unfolding three_hi
  by (simp add: listConversations_always_empty is_unread_def people)

section \<open>Properties: the socket gateway\<close>
























text \<open>
  The payload \<^verbatim>\<open>generateAuthToken\<close> signs has the fields \<^verbatim>\<open>id\<close>, \<^verbatim>\<open>role\<close> and \<^verbatim>\<open>email\<close>; the socket
  middleware reads \<^verbatim>\<open>_id\<close>. A token without \<^verbatim>\<open>_id\<close> is refused.
\<close>

lemma issued_token_refused:
  assumes "verify t = Some p" "jwt__id p = None"
  shows "socket_auth verify st (Some t) = Inl ''Authentication failed''"
  using assms by (simp add: socket_auth_def User_findById_raw_def)

lemma setupWebSocket_joins_unauthenticated:
  "c \<in> setupWebSocket_step {} (JoinConversation c)"
  by simp

end
